theory Spec2Isabelle
  imports Main "HOL-Library.Sublist"
begin

section \<open>The configuration documents of the repository\<close>

text \<open>
  The repository consists of four style-framework configuration documents, each of the
  form \<^verbatim>\<open>module.exports = { ... }\<close>. The file \<^verbatim>\<open>src/tailwind.config.js\<close> holds two of
  them (lines 2 to 9 and lines 12 to 28), \<^verbatim>\<open>src/unnamed/part_000\<close> and
  \<^verbatim>\<open>src/unnamed/part_001\<close> hold one each.

  The right-hand side of each assignment is a JavaScript expression. The expressions
  occurring in the sources are string literals, array literals, object literals and one
  call expression (\<^verbatim>\<open>require("daisyui")\<close>); number literals are part of the syntax
  so that a numeric value can be told from a string. A property key of an object literal
  is written as an identifier (\<^verbatim>\<open>primary:\<close>), as a number (\<^verbatim>\<open>50:\<close>) or as a quoted
  string (\<^verbatim>\<open>'primary-dark':\<close>).
\<close>

subsection \<open>Syntax\<close>

datatype key = Ident string | NumKey nat | StrKey string

datatype expr =
    Str string
  | Num int
  | Arr "expr list"
  | Obj "(key \<times> expr) list"
  | Call string "expr list"

text \<open>The decimal numeral of a natural number: the property name of a numeric key.\<close>

fun decimal :: "nat \<Rightarrow> string" where
  "decimal n =
     (if n < 10 then [''0123456789'' ! n]
      else decimal (n div 10) @ [''0123456789'' ! (n mod 10)])"

declare decimal.simps [simp del]

fun key_name :: "key \<Rightarrow> string" where
  "key_name (Ident s) = s"
| "key_name (NumKey n) = decimal n"
| "key_name (StrKey s) = s"

subsection \<open>The four documents\<close>

text \<open>\<^verbatim>\<open>src/tailwind.config.js\<close>, lines 2 to 9.\<close>

definition tailwind_config_exports :: expr where
  "tailwind_config_exports = Obj
     [(Ident ''content'', Arr [Str ''./templates/**/*.html'']),
      (Ident ''darkMode'', Str ''media''),
      (Ident ''theme'', Obj
         [(Ident ''extend'', Obj [])]),
      (Ident ''plugins'', Arr [Call ''require'' [Str ''daisyui'']])]"

text \<open>\<^verbatim>\<open>src/tailwind.config.js\<close>, lines 12 to 28 (the second document of the file).\<close>

definition tailwind_config_exports_2 :: expr where
  "tailwind_config_exports_2 = Obj
     [(Ident ''content'', Arr
         [Str ''./templates/**/*.html'',
          Str ''./apps/**/*.html'',
          Str ''./apps/**/templates/**/*.html'']),
      (Ident ''theme'', Obj
         [(Ident ''extend'', Obj
            [(Ident ''colors'', Obj
               [(Ident ''primary'', Str ''#2E7D32''),
                (StrKey ''primary-dark'', Str ''#1B5E20''),
                (Ident ''accent'', Str ''#4CAF50'')])])]),
      (Ident ''plugins'', Arr [])]"

text \<open>\<^verbatim>\<open>src/unnamed/part_000\<close>, lines 2 to 38.\<close>

definition part_000_exports :: expr where
  "part_000_exports = Obj
     [(Ident ''content'', Arr
         [Str ''./templates/**/*.html'',
          Str ''./apps/**/*.html'',
          Str ''./apps/**/templates/**/*.html'',
          Str ''./static/js/**/*.js'']),
      (Ident ''theme'', Obj
         [(Ident ''extend'', Obj
            [(Ident ''colors'', Obj
               [(Ident ''primary'', Obj
                  [(NumKey 50, Str ''#f0fdf4''),
                   (NumKey 100, Str ''#dcfce7''),
                   (NumKey 200, Str ''#bbf7d0''),
                   (NumKey 300, Str ''#86efac''),
                   (NumKey 400, Str ''#4ade80''),
                   (NumKey 500, Str ''#22c55e''),
                   (NumKey 600, Str ''#16a34a''),
                   (NumKey 700, Str ''#15803d''),
                   (NumKey 800, Str ''#166534''),
                   (NumKey 900, Str ''#14532d'')]),
                (Ident ''danger'', Obj
                  [(NumKey 600, Str ''#dc2626''),
                   (NumKey 700, Str ''#b91c1c'')])]),
             (Ident ''fontFamily'', Obj
               [(Ident ''sans'', Arr [Str ''Inter'', Str ''system-ui'', Str ''sans-serif''])])])]),
      (Ident ''plugins'', Arr [])]"

text \<open>\<^verbatim>\<open>src/unnamed/part_001\<close>, lines 2 to 59.\<close>

definition part_001_exports :: expr where
  "part_001_exports = Obj
     [(Ident ''content'', Arr
         [Str ''./templates/**/*.html'',
          Str ''./apps/**/*.html'',
          Str ''./static_src/**/*.js'',
          Str ''./templates/partials/**/*.html'']),
      (Ident ''theme'', Obj
         [(Ident ''extend'', Obj
            [(Ident ''colors'', Obj
               [(Ident ''primary'', Obj
                  [(Ident ''DEFAULT'', Str ''#2E7D32''),
                   (NumKey 50, Str ''#f0fdf4''),
                   (NumKey 100, Str ''#dcfce7''),
                   (NumKey 200, Str ''#bbf7d0''),
                   (NumKey 300, Str ''#86efac''),
                   (NumKey 400, Str ''#4ade80''),
                   (NumKey 500, Str ''#22c55e''),
                   (NumKey 600, Str ''#16a34a''),
                   (NumKey 700, Str ''#15803d''),
                   (NumKey 800, Str ''#166534''),
                   (NumKey 900, Str ''#14532d'')]),
                (Ident ''secondary'', Str ''#43A047''),
                (Ident ''danger'', Str ''#D32F2F''),
                (Ident ''warning'', Str ''#F57C00''),
                (Ident ''info'', Str ''#1976D2''),
                (Ident ''muted'', Str ''#6B7280'')]),
             (Ident ''spacing'', Obj
               [(StrKey ''128'', Str ''32rem''),
                (StrKey ''144'', Str ''36rem'')]),
             (Ident ''fontFamily'', Obj
               [(Ident ''sans'', Arr [Str ''Inter'', Str ''system-ui'', Str ''sans-serif''])])])]),
      (Ident ''plugins'', Arr [])]"

definition config_documents :: "expr list" where
  "config_documents =
     [tailwind_config_exports, tailwind_config_exports_2, part_000_exports, part_001_exports]"

subsection \<open>Reading a document\<close>

text \<open>
  The property names of an object literal, in the order written, and the value a name is
  bound to. Where an object literal repeats a name the last binding is the one kept, as in
  JavaScript; anything that is not an object literal has no properties.
\<close>

fun keys :: "expr \<Rightarrow> string list" where
  "keys (Obj kvs) = map (\<lambda>kv. key_name (fst kv)) kvs"
| "keys _ = []"

fun field :: "string \<Rightarrow> expr \<Rightarrow> expr option" where
  "field name (Obj kvs) = map_of (rev (map (\<lambda>kv. (key_name (fst kv), snd kv)) kvs)) name"
| "field name _ = None"

text \<open>Following a path of property names, such as \<^verbatim>\<open>theme.extend.colors\<close>.\<close>

fun path :: "string list \<Rightarrow> expr \<Rightarrow> expr option" where
  "path [] e = Some e"
| "path (name # names) e = (case field name e of None \<Rightarrow> None | Some e' \<Rightarrow> path names e')"

text \<open>The entries of the \<^verbatim>\<open>content\<close> sequence of a document.\<close>

definition content_entries :: "expr \<Rightarrow> expr list option" where
  "content_entries c = (case field ''content'' c of Some (Arr es) \<Rightarrow> Some es | _ \<Rightarrow> None)"

text \<open>
  The leaves of a document are the values that are neither sequences nor mappings, each
  with the path of property names leading to it (a position in a sequence adds nothing
  to the path). A call expression is a leaf: it stands where a value is expected.
\<close>

fun leaf_paths :: "string list \<Rightarrow> expr \<Rightarrow> (string list \<times> expr) list"
  and leaf_paths_list :: "string list \<Rightarrow> expr list \<Rightarrow> (string list \<times> expr) list"
  and leaf_paths_fields :: "string list \<Rightarrow> (key \<times> expr) list \<Rightarrow> (string list \<times> expr) list"
where
  "leaf_paths p (Arr es) = leaf_paths_list p es"
| "leaf_paths p (Obj kvs) = leaf_paths_fields p kvs"
| "leaf_paths p (Str s) = [(p, Str s)]"
| "leaf_paths p (Num n) = [(p, Num n)]"
| "leaf_paths p (Call f args) = [(p, Call f args)]"
| "leaf_paths_list p [] = []"
| "leaf_paths_list p (e # es) = leaf_paths p e @ leaf_paths_list p es"
| "leaf_paths_fields p [] = []"
| "leaf_paths_fields p (kv # kvs) =
     leaf_paths (p @ [key_name (fst kv)]) (snd kv) @ leaf_paths_fields p kvs"

definition leaves :: "expr \<Rightarrow> expr list" where
  "leaves e = map snd (leaf_paths [] e)"

text \<open>The call expressions of a document, wherever they occur, arguments included.\<close>

fun calls :: "expr \<Rightarrow> expr list"
  and calls_list :: "expr list \<Rightarrow> expr list"
  and calls_fields :: "(key \<times> expr) list \<Rightarrow> expr list"
where
  "calls (Str s) = []"
| "calls (Num n) = []"
| "calls (Arr es) = calls_list es"
| "calls (Obj kvs) = calls_fields kvs"
| "calls (Call f args) = Call f args # calls_list args"
| "calls_list [] = []"
| "calls_list (e # es) = calls e @ calls_list es"
| "calls_fields [] = []"
| "calls_fields (kv # kvs) = calls (snd kv) @ calls_fields kvs"

text \<open>A value literal is an expression without a call expression in it.\<close>

definition is_literal :: "expr \<Rightarrow> bool" where
  "is_literal e = (calls e = [])"

subsection \<open>The shape the external styling tool expects\<close>

definition recognized_keys :: "string list" where
  "recognized_keys = [''content'', ''theme'', ''darkMode'', ''plugins'']"

fun is_string :: "expr \<Rightarrow> bool" where
  "is_string (Str s) = True"
| "is_string _ = False"

fun is_sequence :: "expr \<Rightarrow> bool" where
  "is_sequence (Arr es) = True"
| "is_sequence _ = False"

fun is_mapping :: "expr \<Rightarrow> bool" where
  "is_mapping (Obj kvs) = True"
| "is_mapping _ = False"

text \<open>
  A configuration object is a mapping with recognized keys only, whose \<^verbatim>\<open>content\<close> is a
  sequence of strings, whose \<^verbatim>\<open>theme.extend\<close> is a mapping and whose \<^verbatim>\<open>plugins\<close>
  is a sequence.
\<close>

definition valid_config :: "expr \<Rightarrow> bool" where
  "valid_config c =
     (is_mapping c
      \<and> list_all (\<lambda>k. k \<in> set recognized_keys) (keys c)
      \<and> (case field ''content'' c of Some (Arr es) \<Rightarrow> list_all is_string es | _ \<Rightarrow> False)
      \<and> (case path [''theme'', ''extend''] c of Some ext \<Rightarrow> is_mapping ext | None \<Rightarrow> False)
      \<and> (case field ''plugins'' c of Some ps \<Rightarrow> is_sequence ps | None \<Rightarrow> False))"

text \<open>The design-token categories the specification names for a theme extension.\<close>

definition extension_categories :: "string list" where
  "extension_categories = [''colors'', ''fontFamily'', ''spacing'']"

subsection \<open>Kinds of literal values\<close>

text \<open>A scan pattern starts with \<^verbatim>\<open>./\<close> and ends with \<^verbatim>\<open>*.html\<close> or \<^verbatim>\<open>*.js\<close>.\<close>

fun is_scan_pattern :: "expr \<Rightarrow> bool" where
  "is_scan_pattern (Str s) = (prefix ''./'' s \<and> (suffix ''*.html'' s \<or> suffix ''*.js'' s))"
| "is_scan_pattern _ = False"

definition is_digit :: "char \<Rightarrow> bool" where
  "is_digit c = (c \<in> set ''0123456789'')"

definition is_hex_digit :: "char \<Rightarrow> bool" where
  "is_hex_digit c = (c \<in> set ''0123456789abcdefABCDEF'')"

definition is_letter :: "char \<Rightarrow> bool" where
  "is_letter c = (c \<in> set ''abcdefghijklmnopqrstuvwxyzABCDEFGHIJKLMNOPQRSTUVWXYZ'')"

text \<open>A hex colour is \<^verbatim>\<open>#\<close> followed by exactly six hexadecimal digits.\<close>

fun is_hex_color :: "expr \<Rightarrow> bool" where
  "is_hex_color (Str s) =
     (case s of [] \<Rightarrow> False
      | c # ds \<Rightarrow> c = CHR ''#'' \<and> length ds = 6 \<and> list_all is_hex_digit ds)"
| "is_hex_color _ = False"

text \<open>A font name is a non-empty string of letters and hyphens.\<close>

fun is_font_name :: "expr \<Rightarrow> bool" where
  "is_font_name (Str s) = (s \<noteq> [] \<and> list_all (\<lambda>c. is_letter c \<or> c = CHR ''-'') s)"
| "is_font_name _ = False"

text \<open>
  A numeric value is a number literal; a string made of decimal digits only is counted
  as numeric as well, which is the most generous reading.
\<close>

fun is_numeric :: "expr \<Rightarrow> bool" where
  "is_numeric (Num n) = True"
| "is_numeric (Str s) = (s \<noteq> [] \<and> list_all is_digit s)"
| "is_numeric _ = False"

text \<open>A rem length is a string of decimal digits followed by the unit \<^verbatim>\<open>rem\<close>.\<close>

fun is_rem_length :: "expr \<Rightarrow> bool" where
  "is_rem_length (Str s) =
     (suffix ''rem'' s \<and> is_numeric (Str (take (length s - 3) s)))"
| "is_rem_length _ = False"

fun is_call :: "expr \<Rightarrow> bool" where
  "is_call (Call f args) = True"
| "is_call _ = False"

text \<open>
  The kind of a literal value depends on where it stands: a glob pattern is an entry of
  \<^verbatim>\<open>content\<close>, a colour stands under \<^verbatim>\<open>theme.extend.colors\<close>, a font name under
  \<^verbatim>\<open>theme.extend.fontFamily\<close>, a spacing value under \<^verbatim>\<open>theme.extend.spacing\<close>, the
  strategy selector is the value of \<^verbatim>\<open>darkMode\<close>.
\<close>

datatype kind =
  GlobPattern | HexColor | FontName | NumericSpacing | RemSpacing | StrategySelector

fun has_kind :: "kind \<Rightarrow> string list \<Rightarrow> expr \<Rightarrow> bool" where
  "has_kind GlobPattern p v = (p = [''content''] \<and> is_scan_pattern v)"
| "has_kind HexColor p v = (prefix [''theme'', ''extend'', ''colors''] p \<and> is_hex_color v)"
| "has_kind FontName p v = (prefix [''theme'', ''extend'', ''fontFamily''] p \<and> is_font_name v)"
| "has_kind NumericSpacing p v = (prefix [''theme'', ''extend'', ''spacing''] p \<and> is_numeric v)"
| "has_kind RemSpacing p v = (prefix [''theme'', ''extend'', ''spacing''] p \<and> is_rem_length v)"
| "has_kind StrategySelector p v = (p = [''darkMode''] \<and> v = Str ''media'')"

text \<open>The four kinds of literal value the specification lists, and the kinds that occur.\<close>

definition listed_kinds :: "kind list" where
  "listed_kinds = [GlobPattern, HexColor, FontName, NumericSpacing]"

definition occurring_kinds :: "kind list" where
  "occurring_kinds = [GlobPattern, HexColor, FontName, RemSpacing, StrategySelector]"

definition has_kind_of :: "kind list \<Rightarrow> string list \<times> expr \<Rightarrow> bool" where
  "has_kind_of ks pv = list_ex (\<lambda>k. has_kind k (fst pv) (snd pv)) ks"

text \<open>The values added to the spacing scale by a document (none without the key).\<close>

definition spacing_values :: "expr \<Rightarrow> expr list" where
  "spacing_values c =
     (case path [''theme'', ''extend'', ''spacing''] c of None \<Rightarrow> [] | Some sp \<Rightarrow> leaves sp)"

subsection \<open>Evaluating a document\<close>

text \<open>
  Loading a configuration module evaluates the expression assigned to
  \<^verbatim>\<open>module.exports\<close>. Literals evaluate to themselves. The call \<^verbatim>\<open>require(m)\<close> asks the
  host's module loader for the module named \<open>m\<close>: the loader is the environment of the
  evaluation, a partial map from module names to the values they export, and a module it
  does not know is an error. Calling any other name is an error too, since the documents
  define no function. Properties are defined in the order written, a repeated name
  overwriting the earlier value in place.
\<close>

datatype val =
    VStr string
  | VNum int
  | VArr "val list"
  | VObj "(string \<times> val) list"

datatype error = ModuleNotFound string | NotDefined string | BadArgument

type_synonym loader = "string \<Rightarrow> val option"

fun define_property :: "string \<Rightarrow> val \<Rightarrow> (string \<times> val) list \<Rightarrow> (string \<times> val) list" where
  "define_property k v [] = [(k, v)]"
| "define_property k v (p # ps) =
     (if fst p = k then (k, v) # ps else p # define_property k v ps)"

fun eval :: "loader \<Rightarrow> expr \<Rightarrow> error + val"
  and eval_list :: "loader \<Rightarrow> expr list \<Rightarrow> error + val list"
  and eval_fields :: "loader \<Rightarrow> (string \<times> val) list \<Rightarrow> (key \<times> expr) list \<Rightarrow> error + (string \<times> val) list"
where
  "eval env (Str s) = Inr (VStr s)"
| "eval env (Num n) = Inr (VNum n)"
| "eval env (Arr es) =
     (case eval_list env es of Inl err \<Rightarrow> Inl err | Inr vs \<Rightarrow> Inr (VArr vs))"
| "eval env (Obj kvs) =
     (case eval_fields env [] kvs of Inl err \<Rightarrow> Inl err | Inr ps \<Rightarrow> Inr (VObj ps))"
| "eval env (Call f args) =
     (if f \<noteq> ''require'' then Inl (NotDefined f)
      else case eval_list env args of
        Inl err \<Rightarrow> Inl err
      | Inr [VStr m] \<Rightarrow> (case env m of None \<Rightarrow> Inl (ModuleNotFound m) | Some v \<Rightarrow> Inr v)
      | Inr _ \<Rightarrow> Inl BadArgument)"
| "eval_list env [] = Inr []"
| "eval_list env (e # es) =
     (case eval env e of
        Inl err \<Rightarrow> Inl err
      | Inr v \<Rightarrow> (case eval_list env es of Inl err \<Rightarrow> Inl err | Inr vs \<Rightarrow> Inr (v # vs)))"
| "eval_fields env ps [] = Inr ps"
| "eval_fields env ps (kv # kvs) =
     (case eval env (snd kv) of
        Inl err \<Rightarrow> Inl err
      | Inr v \<Rightarrow> eval_fields env (define_property (key_name (fst kv)) v ps) kvs)"

text \<open>The module names a document asks the loader for.\<close>

fun required_module :: "expr \<Rightarrow> string list" where
  "required_module (Call f [Str m]) = (if f = ''require'' then [m] else [])"
| "required_module _ = []"

definition required_modules :: "expr \<Rightarrow> string list" where
  "required_modules e = concat (map required_module (calls e))"

text \<open>
  Three loaders: one that knows no module, one in which the plugin is installed, and one
  in which a second plugin is installed beside it. The strings stand for the values the
  modules export.
\<close>

definition no_modules :: loader where
  "no_modules = (\<lambda>m. None)"

definition daisyui_installed :: loader where
  "daisyui_installed = (\<lambda>m. if m = ''daisyui'' then Some (VStr ''daisyui plugin'') else None)"

definition plugins_installed :: loader where
  "plugins_installed =
     (\<lambda>m. if m = ''daisyui'' then Some (VStr ''daisyui plugin'')
          else if m = ''@tailwindcss/forms'' then Some (VStr ''forms plugin'')
          else None)"

subsection \<open>Theme resolution by the external tool\<close>

type_synonym tokens = "string \<Rightarrow> string \<Rightarrow> expr option"

text \<open>
  Modelled from the spec: the theme resolution of the external styling tool, which is
  not part of the repository. The glossary describes a theme extension as a declarative
  override of, or addition to, the tool's default design-token set. The default set is a
  parameter: it gives the value of a token of a category, if there is one. A category
  placed directly under \<^verbatim>\<open>theme\<close> stands for the whole category, in place of the
  defaults; a category under \<^verbatim>\<open>theme.extend\<close> overrides or adds the tokens it names and
  passes every other token of the defaults through. \<^verbatim>\<open>extend\<close> itself is not a
  category.
\<close>

definition resolve_theme :: "tokens \<Rightarrow> expr \<Rightarrow> tokens" where
  "resolve_theme defaults th cat tok =
     (if cat = ''extend'' then None
      else case field cat th of
        Some whole \<Rightarrow> field tok whole
      | None \<Rightarrow>
          (case path [''extend'', cat, tok] th of
             Some v \<Rightarrow> Some v
           | None \<Rightarrow> defaults cat tok))"

text \<open>A small default token set, to run the resolution on.\<close>

definition sample_defaults :: tokens where
  "sample_defaults cat tok =
     (if cat = ''colors'' \<and> tok = ''black'' then Some (Str ''#000000'')
      else if cat = ''spacing'' \<and> tok = ''4'' then Some (Str ''1rem'')
      else None)"

section \<open>Evaluating the documents\<close>

lemmas document_defs =
  tailwind_config_exports_def tailwind_config_exports_2_def
  part_000_exports_def part_001_exports_def

lemma content_entries_tailwind:
  "content_entries tailwind_config_exports = Some [Str ''./templates/**/*.html'']"
  by (simp add: content_entries_def tailwind_config_exports_def)

lemma content_entries_tailwind_2:
  "content_entries tailwind_config_exports_2 =
     Some [Str ''./templates/**/*.html'', Str ''./apps/**/*.html'',
           Str ''./apps/**/templates/**/*.html'']"
  by (simp add: content_entries_def tailwind_config_exports_2_def)

lemma content_entries_part_000:
  "content_entries part_000_exports =
     Some [Str ''./templates/**/*.html'', Str ''./apps/**/*.html'',
           Str ''./apps/**/templates/**/*.html'', Str ''./static/js/**/*.js'']"
  by (simp add: content_entries_def part_000_exports_def)

lemma content_entries_part_001:
  "content_entries part_001_exports =
     Some [Str ''./templates/**/*.html'', Str ''./apps/**/*.html'',
           Str ''./static_src/**/*.js'', Str ''./templates/partials/**/*.html'']"
  by (simp add: content_entries_def part_001_exports_def)

lemmas content_entries_documents =
  content_entries_tailwind content_entries_tailwind_2
  content_entries_part_000 content_entries_part_001

lemma part_000_is_document: "part_000_exports \<in> set config_documents"
  by (simp add: config_documents_def)

lemma part_001_is_document: "part_001_exports \<in> set config_documents"
  by (simp add: config_documents_def)

lemma tailwind_is_document: "tailwind_config_exports \<in> set config_documents"
  by (simp add: config_documents_def)

lemma calls_documents:
  "calls tailwind_config_exports = [Call ''require'' [Str ''daisyui'']]"
  "calls tailwind_config_exports_2 = []"
  "calls part_000_exports = []"
  "calls part_001_exports = []"
  by (simp_all add: document_defs)

lemma other_documents_differ:
  "tailwind_config_exports_2 \<noteq> tailwind_config_exports"
  "part_000_exports \<noteq> tailwind_config_exports"
  "part_001_exports \<noteq> tailwind_config_exports"
  by (simp_all add: document_defs)

section \<open>The shape of the configuration objects\<close>

text \<open>
  C1. Every configuration object of the repository has the shape the external styling
  tool expects: it is a mapping whose keys are among \<^verbatim>\<open>content\<close>, \<^verbatim>\<open>theme\<close>,
  \<^verbatim>\<open>darkMode\<close> and \<^verbatim>\<open>plugins\<close>; its \<^verbatim>\<open>content\<close> is a sequence of strings, its
  \<^verbatim>\<open>theme.extend\<close> is a mapping and its \<^verbatim>\<open>plugins\<close> is a sequence.
\<close>

theorem documents_valid_config:
  "\<forall>c \<in> set config_documents. valid_config c"
  unfolding config_documents_def
  by (simp add: valid_config_def recognized_keys_def document_defs)

theorem documents_valid_config_witness:
  "part_001_exports \<in> set config_documents \<and> valid_config part_001_exports"
  using documents_valid_config part_001_is_document by blast

text \<open>
  C4. Every configuration document that has the key \<^verbatim>\<open>darkMode\<close> binds it to the
  strategy selector \<^verbatim>\<open>"media"\<close>.
\<close>

theorem dark_mode_is_media:
  "\<forall>c \<in> set config_documents. \<forall>v. field ''darkMode'' c = Some v \<longrightarrow> v = Str ''media''"
  unfolding config_documents_def
  by (simp add: document_defs)

theorem dark_mode_is_media_witness:
  "tailwind_config_exports \<in> set config_documents
   \<and> ''darkMode'' \<in> set (keys tailwind_config_exports)
   \<and> field ''darkMode'' tailwind_config_exports = Some (Str ''media'')"
proof -
  have k: "''darkMode'' \<in> set (keys tailwind_config_exports)"
    by (simp add: tailwind_config_exports_def)
  have "field ''darkMode'' tailwind_config_exports \<noteq> None"
    by (simp add: tailwind_config_exports_def)
  then obtain v where v: "field ''darkMode'' tailwind_config_exports = Some v"
    by blast
  with dark_mode_is_media tailwind_is_document have "v = Str ''media''"
    by blast
  with v k tailwind_is_document show ?thesis
    by simp
qed

text \<open>
  C7. In every configuration document \<^verbatim>\<open>theme.extend\<close> is a mapping whose keys are
  among \<^verbatim>\<open>colors\<close>, \<^verbatim>\<open>fontFamily\<close> and \<^verbatim>\<open>spacing\<close>: no other design-token category
  appears.
\<close>

theorem extend_keys_are_categories:
  "\<forall>c \<in> set config_documents.
     \<exists>kvs. path [''theme'', ''extend''] c = Some (Obj kvs)
       \<and> set (keys (Obj kvs)) \<subseteq> set extension_categories"
  unfolding config_documents_def
  by (simp add: document_defs extension_categories_def)

theorem extend_keys_are_categories_witness:
  "part_001_exports \<in> set config_documents
   \<and> (\<exists>kvs. path [''theme'', ''extend''] part_001_exports = Some (Obj kvs)
         \<and> keys (Obj kvs) = [''colors'', ''spacing'', ''fontFamily'']
         \<and> set (keys (Obj kvs)) \<subseteq> set extension_categories)"
proof -
  from extend_keys_are_categories part_001_is_document
  obtain kvs where kvs: "path [''theme'', ''extend''] part_001_exports = Some (Obj kvs)"
    and sub: "set (keys (Obj kvs)) \<subseteq> set extension_categories"
    by blast
  from kvs have "keys (Obj kvs) = [''colors'', ''spacing'', ''fontFamily'']"
    by (auto simp add: part_001_exports_def)
  with kvs sub part_001_is_document show ?thesis
    by blast
qed

section \<open>Properties of the content sequence\<close>

text \<open>
  C5. In every configuration document every entry of the content sequence is a file-glob
  pattern string that begins with \<^verbatim>\<open>./\<close> and ends with \<^verbatim>\<open>*.html\<close> or \<^verbatim>\<open>*.js\<close>.
\<close>

theorem content_entries_are_scan_patterns:
  "\<forall>c \<in> set config_documents.
     \<exists>es. content_entries c = Some es \<and> (\<forall>e \<in> set es. is_scan_pattern e)"
  by (simp add: config_documents_def content_entries_documents suffix_to_prefix)

theorem content_entries_are_scan_patterns_witness:
  "part_001_exports \<in> set config_documents
   \<and> (\<exists>es. content_entries part_001_exports = Some es
         \<and> Str ''./static_src/**/*.js'' \<in> set es
         \<and> is_scan_pattern (Str ''./static_src/**/*.js''))"
proof -
  from content_entries_are_scan_patterns part_001_is_document
  obtain es where es: "content_entries part_001_exports = Some es"
    and pat: "\<forall>e \<in> set es. is_scan_pattern e"
    by blast
  from es have m: "Str ''./static_src/**/*.js'' \<in> set es"
    by (auto simp add: content_entries_part_001)
  with pat have "is_scan_pattern (Str ''./static_src/**/*.js'')"
    by blast
  with es m part_001_is_document show ?thesis
    by blast
qed

text \<open>
  C10. In every configuration document the content sequence is not empty, its entries
  are pairwise distinct, and its first entry is the pattern
  \<^verbatim>\<open>"./templates/**/*.html"\<close>.
\<close>

theorem content_nonempty_distinct_templates_first:
  "\<forall>c \<in> set config_documents.
     \<exists>e es. content_entries c = Some (e # es) \<and> distinct (e # es)
       \<and> e = Str ''./templates/**/*.html''"
  by (simp add: config_documents_def content_entries_documents)

theorem content_nonempty_distinct_templates_first_witness:
  "part_000_exports \<in> set config_documents
   \<and> (\<exists>e es. content_entries part_000_exports = Some (e # es) \<and> distinct (e # es)
         \<and> e = Str ''./templates/**/*.html'')"
  using content_nonempty_distinct_templates_first part_000_is_document by blast

section \<open>Colours\<close>

text \<open>
  C9. In every configuration document every leaf value under \<^verbatim>\<open>theme.extend.colors\<close>,
  whether the colour is a flat string or a mapping of shades, is a hex-colour string:
  \<^verbatim>\<open>#\<close> followed by exactly six hexadecimal digits.
\<close>

theorem color_leaves_are_hex:
  "\<forall>c \<in> set config_documents. \<forall>cs.
     path [''theme'', ''extend'', ''colors''] c = Some cs \<longrightarrow>
     (\<forall>v \<in> set (leaves cs). is_hex_color v)"
  unfolding config_documents_def
  by (simp add: document_defs leaves_def is_hex_digit_def)

theorem color_leaves_are_hex_witness:
  "part_001_exports \<in> set config_documents
   \<and> (\<exists>cs. path [''theme'', ''extend'', ''colors''] part_001_exports = Some cs
         \<and> Str ''#2E7D32'' \<in> set (leaves cs) \<and> Str ''#6B7280'' \<in> set (leaves cs)
         \<and> is_hex_color (Str ''#2E7D32'') \<and> is_hex_color (Str ''#6B7280''))"
proof -
  have "path [''theme'', ''extend'', ''colors''] part_001_exports \<noteq> None"
    by (simp add: part_001_exports_def)
  then obtain cs where cs: "path [''theme'', ''extend'', ''colors''] part_001_exports = Some cs"
    by blast
  with color_leaves_are_hex part_001_is_document
  have hex: "\<forall>v \<in> set (leaves cs). is_hex_color v"
    by blast
  from cs have m: "Str ''#2E7D32'' \<in> set (leaves cs)" "Str ''#6B7280'' \<in> set (leaves cs)"
    by (auto simp add: part_001_exports_def leaves_def)
  with hex have "is_hex_color (Str ''#2E7D32'')" "is_hex_color (Str ''#6B7280'')"
    by blast+
  with cs m part_001_is_document show ?thesis
    by blast
qed

section \<open>Literals and calls\<close>

text \<open>
  C2, as the specification states it: every configuration document is a value literal,
  without a function call. The first document of \<^verbatim>\<open>src/tailwind.config.js\<close> is not: its
  \<^verbatim>\<open>plugins\<close> sequence holds the call \<^verbatim>\<open>require("daisyui")\<close>.
\<close>

theorem tailwind_config_not_literal:
  "\<not> is_literal tailwind_config_exports
   \<and> field ''plugins'' tailwind_config_exports = Some (Arr [Call ''require'' [Str ''daisyui'']])"
  by (simp add: is_literal_def tailwind_config_exports_def)

text \<open>
  C2, amended. The only call expression of the configuration documents is
  \<^verbatim>\<open>require("daisyui")\<close>, an entry of the \<^verbatim>\<open>plugins\<close> sequence of the first document of
  \<^verbatim>\<open>src/tailwind.config.js\<close>; its argument is a string literal. Everything else in that
  document, and the whole of the three other documents, is a value literal.
\<close>

theorem only_call_is_plugin_require:
  "\<forall>c \<in> set config_documents.
     calls c = (if c = tailwind_config_exports then [Call ''require'' [Str ''daisyui'']] else [])
     \<and> (\<forall>pv \<in> set (leaf_paths [] c). is_call (snd pv) \<longrightarrow> fst pv = [''plugins''])
     \<and> (c \<noteq> tailwind_config_exports \<longrightarrow> is_literal c)"
  unfolding config_documents_def
  by (simp add: calls_documents other_documents_differ is_literal_def)
     (simp add: document_defs decimal.simps)

theorem only_call_is_plugin_require_witness:
  "tailwind_config_exports \<in> set config_documents
   \<and> calls tailwind_config_exports = [Call ''require'' [Str ''daisyui'']]
   \<and> part_000_exports \<in> set config_documents
   \<and> part_000_exports \<noteq> tailwind_config_exports
   \<and> is_literal part_000_exports"
  using only_call_is_plugin_require tailwind_is_document part_000_is_document
    other_documents_differ(2)
  by auto

section \<open>Kinds of literal values\<close>

text \<open>
  C3, as the specification states it: every literal value is a glob pattern, a hex
  colour, a font name or a numeric spacing value, and the values added to the spacing
  scale are numeric. The spacing values of \<^verbatim>\<open>src/unnamed/part_001\<close> are the strings
  \<^verbatim>\<open>'32rem'\<close> and \<^verbatim>\<open>'36rem'\<close>: they are not numeric and of none of the four kinds, by
  position or by form. The value \<^verbatim>\<open>"media"\<close> of \<^verbatim>\<open>darkMode\<close> is of none of the four
  kinds either.
\<close>

theorem spacing_values_not_numeric:
  "spacing_values part_001_exports = [Str ''32rem'', Str ''36rem'']
   \<and> \<not> is_numeric (Str ''32rem'') \<and> \<not> is_numeric (Str ''36rem'')
   \<and> ([''theme'', ''extend'', ''spacing'', ''128''], Str ''32rem'')
         \<in> set (leaf_paths [] part_001_exports)
   \<and> \<not> has_kind_of listed_kinds ([''theme'', ''extend'', ''spacing'', ''128''], Str ''32rem'')
   \<and> \<not> is_scan_pattern (Str ''32rem'') \<and> \<not> is_hex_color (Str ''32rem'')
   \<and> \<not> is_font_name (Str ''32rem'')
   \<and> ([''darkMode''], Str ''media'') \<in> set (leaf_paths [] tailwind_config_exports)
   \<and> \<not> has_kind_of listed_kinds ([''darkMode''], Str ''media'')"
  by (simp add: document_defs decimal.simps has_kind_of_def listed_kinds_def
      spacing_values_def leaves_def is_digit_def is_letter_def)

text \<open>
  C3, amended. Every literal value of the configuration documents is a string of the
  kind its position asks for: a glob pattern in \<^verbatim>\<open>content\<close>, a hex colour under
  \<^verbatim>\<open>theme.extend.colors\<close>, a font name under \<^verbatim>\<open>theme.extend.fontFamily\<close>, a rem length
  (decimal digits followed by \<^verbatim>\<open>rem\<close>) under \<^verbatim>\<open>theme.extend.spacing\<close>, or the strategy
  selector \<^verbatim>\<open>"media"\<close> as the value of \<^verbatim>\<open>darkMode\<close>. In particular every value added
  to the spacing scale is a rem-length string, and none is numeric.
\<close>

theorem literal_values_have_kinds:
  "\<forall>c \<in> set config_documents.
     (\<forall>pv \<in> set (leaf_paths [] c).
        \<not> is_call (snd pv) \<longrightarrow> is_string (snd pv) \<and> has_kind_of occurring_kinds pv)
     \<and> (\<forall>v \<in> set (spacing_values c). is_rem_length v \<and> \<not> is_numeric v)"
  unfolding config_documents_def
  by (simp add: document_defs decimal.simps has_kind_of_def occurring_kinds_def
      spacing_values_def leaves_def is_hex_digit_def is_letter_def is_digit_def
      suffix_to_prefix)

theorem literal_values_have_kinds_witness:
  "part_001_exports \<in> set config_documents
   \<and> ([''theme'', ''extend'', ''spacing'', ''144''], Str ''36rem'')
         \<in> set (leaf_paths [] part_001_exports)
   \<and> \<not> is_call (Str ''36rem'')
   \<and> has_kind_of occurring_kinds ([''theme'', ''extend'', ''spacing'', ''144''], Str ''36rem'')
   \<and> Str ''36rem'' \<in> set (spacing_values part_001_exports)
   \<and> is_rem_length (Str ''36rem'')"
proof -
  have m: "([''theme'', ''extend'', ''spacing'', ''144''], Str ''36rem'')
         \<in> set (leaf_paths [] part_001_exports)"
    by (simp add: part_001_exports_def decimal.simps)
  have s: "Str ''36rem'' \<in> set (spacing_values part_001_exports)"
    by (simp add: part_001_exports_def spacing_values_def leaves_def)
  have n: "\<not> is_call (Str ''36rem'')"
    by simp
  from literal_values_have_kinds part_001_is_document
  have all: "\<forall>pv \<in> set (leaf_paths [] part_001_exports).
        \<not> is_call (snd pv) \<longrightarrow> is_string (snd pv) \<and> has_kind_of occurring_kinds pv"
    and sp: "\<forall>v \<in> set (spacing_values part_001_exports). is_rem_length v \<and> \<not> is_numeric v"
    by blast+
  from all m n
  have "has_kind_of occurring_kinds ([''theme'', ''extend'', ''spacing'', ''144''], Str ''36rem'')"
    by fastforce
  moreover from sp s have "is_rem_length (Str ''36rem'')"
    by blast
  ultimately show ?thesis
    using m s n part_001_is_document by blast
qed

section \<open>Theme extension\<close>

text \<open>
  What the resolution does with a category placed directly under \<^verbatim>\<open>theme\<close>: the
  default tokens of that category are gone. None of the documents does this.
\<close>

lemma resolve_theme_direct_replaces:
  "resolve_theme sample_defaults
     (Obj [(Ident ''colors'', Obj [(Ident ''primary'', Str ''#2E7D32'')])])
     ''colors'' ''black'' = None"
  by (simp add: resolve_theme_def)

lemma resolve_theme_only_extend:
  assumes "keys th = [''extend'']" and "cat \<noteq> ''extend''"
  shows "resolve_theme defaults th cat tok =
           (case path [''extend'', cat, tok] th of Some v \<Rightarrow> Some v | None \<Rightarrow> defaults cat tok)"
proof -
  from assms(1) obtain k ext where th: "th = Obj [(k, ext)]" and k: "key_name k = ''extend''"
    by (cases th) auto
  with assms(2) have "field cat th = None"
    by auto
  with assms(2) show ?thesis
    by (simp add: resolve_theme_def)
qed

lemma theme_has_only_extend:
  "\<forall>c \<in> set config_documents.
     \<exists>th. field ''theme'' c = Some th \<and> keys th = [''extend'']
       \<and> (\<forall>cat \<in> set extension_categories. field cat th = None)"
  unfolding config_documents_def
  by (simp add: document_defs extension_categories_def)

text \<open>
  C6. In every configuration document the design-token customizations stand under
  \<^verbatim>\<open>theme.extend\<close> and never directly under \<^verbatim>\<open>theme\<close>: the only key of \<^verbatim>\<open>theme\<close>
  is \<^verbatim>\<open>extend\<close>. So for every default token set the resolved theme gives a token named
  under \<^verbatim>\<open>theme.extend\<close> the value written there (an addition or an override), and
  every other token its default, unchanged.
\<close>

theorem customizations_only_under_extend:
  "\<forall>c \<in> set config_documents.
     \<exists>th. field ''theme'' c = Some th \<and> keys th = [''extend'']
       \<and> (\<forall>cat \<in> set extension_categories. field cat th = None)
       \<and> (\<forall>defaults cat tok. cat \<noteq> ''extend'' \<longrightarrow>
             (case path [''extend'', cat, tok] th of
                Some v \<Rightarrow> resolve_theme defaults th cat tok = Some v
              | None \<Rightarrow> resolve_theme defaults th cat tok = defaults cat tok))"
proof
  fix c
  assume "c \<in> set config_documents"
  with theme_has_only_extend obtain th where th: "field ''theme'' c = Some th" "keys th = [''extend'']"
      "\<forall>cat \<in> set extension_categories. field cat th = None"
    by blast
  have "\<forall>defaults cat tok. cat \<noteq> ''extend'' \<longrightarrow>
             (case path [''extend'', cat, tok] th of
                Some v \<Rightarrow> resolve_theme defaults th cat tok = Some v
              | None \<Rightarrow> resolve_theme defaults th cat tok = defaults cat tok)"
    using resolve_theme_only_extend [OF th(2)]
    by (simp split: option.split)
  with th show "\<exists>th. field ''theme'' c = Some th \<and> keys th = [''extend'']
       \<and> (\<forall>cat \<in> set extension_categories. field cat th = None)
       \<and> (\<forall>defaults cat tok. cat \<noteq> ''extend'' \<longrightarrow>
             (case path [''extend'', cat, tok] th of
                Some v \<Rightarrow> resolve_theme defaults th cat tok = Some v
              | None \<Rightarrow> resolve_theme defaults th cat tok = defaults cat tok))"
    by blast
qed

theorem customizations_only_under_extend_witness:
  "part_001_exports \<in> set config_documents
   \<and> (\<exists>th. field ''theme'' part_001_exports = Some th \<and> keys th = [''extend'']
        \<and> ''colors'' \<in> set extension_categories \<and> field ''colors'' th = None
        \<and> ''spacing'' \<noteq> ''extend''
        \<and> path [''extend'', ''spacing'', ''128''] th = Some (Str ''32rem'')
        \<and> resolve_theme sample_defaults th ''spacing'' ''128'' = Some (Str ''32rem'')
        \<and> path [''extend'', ''spacing'', ''4''] th = None
        \<and> resolve_theme sample_defaults th ''spacing'' ''4'' = Some (Str ''1rem''))"
proof -
  from bspec [OF customizations_only_under_extend part_001_is_document]
  obtain th where all: "field ''theme'' part_001_exports = Some th \<and> keys th = [''extend'']
       \<and> (\<forall>cat \<in> set extension_categories. field cat th = None)
       \<and> (\<forall>defaults cat tok. cat \<noteq> ''extend'' \<longrightarrow>
             (case path [''extend'', cat, tok] th of
                Some v \<Rightarrow> resolve_theme defaults th cat tok = Some v
              | None \<Rightarrow> resolve_theme defaults th cat tok = defaults cat tok))"
    ..
  from all have th: "field ''theme'' part_001_exports = Some th"
    and k: "keys th = [''extend'']"
    and direct: "\<forall>cat \<in> set extension_categories. field cat th = None"
    and res: "\<forall>defaults cat tok. cat \<noteq> ''extend'' \<longrightarrow>
             (case path [''extend'', cat, tok] th of
                Some v \<Rightarrow> resolve_theme defaults th cat tok = Some v
              | None \<Rightarrow> resolve_theme defaults th cat tok = defaults cat tok)"
    by (rule conjunct1, rule conjunct2 [THEN conjunct1],
        rule conjunct2 [THEN conjunct2, THEN conjunct1],
        rule conjunct2 [THEN conjunct2, THEN conjunct2])
  have c: "''colors'' \<in> set extension_categories"
    by (simp add: extension_categories_def)
  with direct have d: "field ''colors'' th = None"
    by blast
  have ne: "''spacing'' \<noteq> ''extend''"
    by simp
  from th have "th = the (field ''theme'' part_001_exports)"
    by simp
  then have p1: "path [''extend'', ''spacing'', ''128''] th = Some (Str ''32rem'')"
    and p2: "path [''extend'', ''spacing'', ''4''] th = None"
    by (simp_all add: part_001_exports_def)
  from res [rule_format, OF ne, of sample_defaults "''128''"]
  have "case path [''extend'', ''spacing'', ''128''] th of
          Some v \<Rightarrow> resolve_theme sample_defaults th ''spacing'' ''128'' = Some v
        | None \<Rightarrow> resolve_theme sample_defaults th ''spacing'' ''128'' =
            sample_defaults ''spacing'' ''128''" .
  with p1 have r1: "resolve_theme sample_defaults th ''spacing'' ''128'' = Some (Str ''32rem'')"
    by simp
  from res [rule_format, OF ne, of sample_defaults "''4''"]
  have "case path [''extend'', ''spacing'', ''4''] th of
          Some v \<Rightarrow> resolve_theme sample_defaults th ''spacing'' ''4'' = Some v
        | None \<Rightarrow> resolve_theme sample_defaults th ''spacing'' ''4'' =
            sample_defaults ''spacing'' ''4''" .
  with p2 have r2: "resolve_theme sample_defaults th ''spacing'' ''4'' = Some (Str ''1rem'')"
    by (simp add: sample_defaults_def)
  from th k c d p1 p2 r1 r2
  have "field ''theme'' part_001_exports = Some th \<and> keys th = [''extend'']
        \<and> ''colors'' \<in> set extension_categories \<and> field ''colors'' th = None
        \<and> ''spacing'' \<noteq> ''extend''
        \<and> path [''extend'', ''spacing'', ''128''] th = Some (Str ''32rem'')
        \<and> resolve_theme sample_defaults th ''spacing'' ''128'' = Some (Str ''32rem'')
        \<and> path [''extend'', ''spacing'', ''4''] th = None
        \<and> resolve_theme sample_defaults th ''spacing'' ''4'' = Some (Str ''1rem'')"
    by simp
  then show ?thesis
    using part_001_is_document by (intro conjI exI [where x = th]) simp_all
qed

section \<open>Determinism of evaluation\<close>

text \<open>
  A value literal evaluates without error, and to the same value under every loader.
\<close>

lemma eval_literal_loader_free:
  "calls e = [] \<Longrightarrow> eval env1 e = eval env2 e"
  "calls_list es = [] \<Longrightarrow> eval_list env1 es = eval_list env2 es"
  "calls_fields kvs = [] \<Longrightarrow> eval_fields env1 ps kvs = eval_fields env2 ps kvs"
  by (induction e and es and kvs arbitrary: and and ps rule: calls_calls_list_calls_fields.induct)
     (simp_all cong: sum.case_cong)

lemma eval_literal_succeeds:
  "calls e = [] \<Longrightarrow> \<exists>v. eval env e = Inr v"
  "calls_list es = [] \<Longrightarrow> \<exists>vs. eval_list env es = Inr vs"
  "calls_fields kvs = [] \<Longrightarrow> \<exists>qs. eval_fields env ps kvs = Inr qs"
proof (induction e and es and kvs arbitrary: and and ps
    rule: calls_calls_list_calls_fields.induct)
  case (3 es)
  then show ?case by auto
next
  case (4 kvs)
  then have "calls_fields kvs = []" by simp
  from 4(1) [OF this, of "[]"] show ?case by auto
next
  case (7 e es)
  then show ?case by auto
next
  case (9 kv kvs)
  then obtain v where v: "eval env (snd kv) = Inr v" by auto
  from 9 have "calls_fields kvs = []" by simp
  from 9(2) [OF this] v show ?case by simp
qed simp_all

lemma required_modules_documents:
  "required_modules tailwind_config_exports = [''daisyui'']"
  "required_modules tailwind_config_exports_2 = []"
  "required_modules part_000_exports = []"
  "required_modules part_001_exports = []"
  by (simp_all add: required_modules_def calls_documents)

lemma eval_tailwind_config:
  "eval env tailwind_config_exports =
     (case env ''daisyui'' of
        None \<Rightarrow> Inl (ModuleNotFound ''daisyui'')
      | Some plugin \<Rightarrow> Inr (VObj
          [(''content'', VArr [VStr ''./templates/**/*.html'']),
           (''darkMode'', VStr ''media''),
           (''theme'', VObj [(''extend'', VObj [])]),
           (''plugins'', VArr [plugin])]))"
  by (cases "env ''daisyui''") (simp_all add: tailwind_config_exports_def)

text \<open>
  C8, as the specification states it: any two evaluations of a configuration document
  give the same exported value, there being no dependence on input. The first document of
  \<^verbatim>\<open>src/tailwind.config.js\<close> depends on the module loader: where the plugin is not
  installed its evaluation fails, where it is installed the exported value holds what
  the loader returns.
\<close>

theorem tailwind_config_depends_on_loader:
  "eval no_modules tailwind_config_exports = Inl (ModuleNotFound ''daisyui'')
   \<and> eval daisyui_installed tailwind_config_exports =
       Inr (VObj
          [(''content'', VArr [VStr ''./templates/**/*.html'']),
           (''darkMode'', VStr ''media''),
           (''theme'', VObj [(''extend'', VObj [])]),
           (''plugins'', VArr [VStr ''daisyui plugin''])])
   \<and> eval no_modules tailwind_config_exports \<noteq> eval daisyui_installed tailwind_config_exports"
  by (simp add: eval_tailwind_config no_modules_def daisyui_installed_def)

text \<open>
  C8, amended. Evaluating a configuration document is deterministic up to the module
  loader: two evaluations of the same document give the same result whenever their
  loaders agree on the modules the document requires. The first document of
  \<^verbatim>\<open>src/tailwind.config.js\<close> requires the module \<^verbatim>\<open>daisyui\<close>; the three other
  documents require no module, so each of them evaluates, without error, to one value
  under every loader.
\<close>

theorem eval_deterministic_up_to_loader:
  "\<forall>c \<in> set config_documents.
     required_modules c = (if c = tailwind_config_exports then [''daisyui''] else [])
     \<and> (\<forall>env1 env2. (\<forall>m \<in> set (required_modules c). env1 m = env2 m) \<longrightarrow>
            eval env1 c = eval env2 c)
     \<and> (required_modules c = [] \<longrightarrow> (\<exists>v. \<forall>env. eval env c = Inr v))"
proof
  fix c
  assume c: "c \<in> set config_documents"
  then have rm: "required_modules c = (if c = tailwind_config_exports then [''daisyui''] else [])"
    by (auto simp add: config_documents_def required_modules_documents other_documents_differ)
  have det: "\<forall>env1 env2. (\<forall>m \<in> set (required_modules c). env1 m = env2 m) \<longrightarrow>
            eval env1 c = eval env2 c"
  proof (cases "c = tailwind_config_exports")
    case True
    then show ?thesis
      by (simp add: required_modules_documents eval_tailwind_config)
  next
    case False
    with c have "calls c = []"
      by (auto simp add: config_documents_def calls_documents)
    then show ?thesis
      by (simp add: eval_literal_loader_free(1) [of c])
  qed
  have tot: "required_modules c = [] \<longrightarrow> (\<exists>v. \<forall>env. eval env c = Inr v)"
  proof
    assume "required_modules c = []"
    with rm have "c \<noteq> tailwind_config_exports"
      by (auto split: if_splits)
    with c have lit: "calls c = []"
      by (auto simp add: config_documents_def calls_documents)
    then obtain v where "eval no_modules c = Inr v"
      using eval_literal_succeeds(1) by blast
    with lit have "\<forall>env. eval env c = Inr v"
      using eval_literal_loader_free(1) [of c] by metis
    then show "\<exists>v. \<forall>env. eval env c = Inr v" ..
  qed
  from rm det tot
  show "required_modules c = (if c = tailwind_config_exports then [''daisyui''] else [])
     \<and> (\<forall>env1 env2. (\<forall>m \<in> set (required_modules c). env1 m = env2 m) \<longrightarrow>
            eval env1 c = eval env2 c)
     \<and> (required_modules c = [] \<longrightarrow> (\<exists>v. \<forall>env. eval env c = Inr v))"
    by (intro conjI)
qed

theorem eval_deterministic_up_to_loader_witness:
  "tailwind_config_exports \<in> set config_documents
   \<and> required_modules tailwind_config_exports = [''daisyui'']
   \<and> daisyui_installed ''daisyui'' = plugins_installed ''daisyui''
   \<and> daisyui_installed ''@tailwindcss/forms'' \<noteq> plugins_installed ''@tailwindcss/forms''
   \<and> eval daisyui_installed tailwind_config_exports =
       eval plugins_installed tailwind_config_exports
   \<and> part_001_exports \<in> set config_documents
   \<and> required_modules part_001_exports = []
   \<and> (\<exists>v. \<forall>env. eval env part_001_exports = Inr v)"
proof -
  note t = bspec [OF eval_deterministic_up_to_loader tailwind_is_document]
  note p = bspec [OF eval_deterministic_up_to_loader part_001_is_document]
  from t have req: "required_modules tailwind_config_exports = [''daisyui'']"
    by simp
  have inst: "daisyui_installed ''daisyui'' = plugins_installed ''daisyui''"
    by (simp add: daisyui_installed_def plugins_installed_def)
  from req inst have agree: "\<forall>m \<in> set (required_modules tailwind_config_exports).
          daisyui_installed m = plugins_installed m"
    by simp
  from t have "(\<forall>m \<in> set (required_modules tailwind_config_exports).
          daisyui_installed m = plugins_installed m) \<longrightarrow>
        eval daisyui_installed tailwind_config_exports =
          eval plugins_installed tailwind_config_exports"
    by (elim conjE allE)
  with agree have same: "eval daisyui_installed tailwind_config_exports =
       eval plugins_installed tailwind_config_exports"
    by (rule rev_mp)
  have differ: "daisyui_installed ''@tailwindcss/forms'' \<noteq> plugins_installed ''@tailwindcss/forms''"
    by (simp add: daisyui_installed_def plugins_installed_def)
  from p other_documents_differ(3) have none: "required_modules part_001_exports = []"
    by simp
  with p have one: "\<exists>v. \<forall>env. eval env part_001_exports = Inr v"
    by (elim conjE impE)
  from req inst differ same none one tailwind_is_document part_001_is_document
  show ?thesis
    by (intro conjI)
qed

end
